theory Spec2Isabelle
  imports Main "HOL-Library.Word"
begin

section \<open>The fetch tool of packages/fetch/src/index.ts\<close>

text \<open>
  The fetch package registers one tool. Its handler validates the URL, calls
  \<open>fetchUrl\<close> (which retrieves the page, decides whether it is HTML and, if so, hands
  it to \<open>extractContentFromHtml\<close>), and then cuts a window out of the resulting text.

  The embedding follows the source function by function. What the source takes from
  the JavaScript platform and from third party libraries (the URL constructor, the
  network \<open>fetch\<close>, JSDOM, Readability, Turndown) is a parameter of the model, gathered
  in the record \<open>platform\<close>; every call of the source that can throw returns a sum,
  \<open>Inl\<close> being the thrown value. Calls to these collaborators are recorded in a list of
  events, so that "no network activity" and "extraction is bypassed" are statements
  about that list.
\<close>

subsection \<open>JavaScript strings and numbers\<close>

text \<open>
  A JavaScript string is a sequence of UTF-16 code units, and \<open>length\<close>, \<open>slice\<close>,
  \<open>substring\<close> and \<open>includes\<close> all count and compare code units. \<open>lit\<close> embeds the
  (ASCII) string literals of the source.
\<close>

type_synonym code_unit = "16 word"
type_synonym js_string = "code_unit list"

definition lit :: "string \<Rightarrow> js_string" where
  "lit s = map of_char s"

text \<open>
  \<open>String.prototype.slice(start, end)\<close>: a negative index counts from the end of the
  string, both indices are clamped to \<open>[0, len]\<close>, and the result is empty when the
  end does not lie behind the start.
\<close>

definition relative_index :: "int \<Rightarrow> nat \<Rightarrow> nat" where
  "relative_index i len =
     (if i < 0 then nat (max (int len + i) 0) else nat (min i (int len)))"

definition slice_str :: "js_string \<Rightarrow> int \<Rightarrow> int \<Rightarrow> js_string" where
  "slice_str s start end =
     (let len = length s;
          from = relative_index start len;
          to = relative_index end len
      in take (to - from) (drop from s))"

text \<open>
  \<open>String.prototype.substring(start, end)\<close>: both indices are clamped to
  \<open>[0, len]\<close> and swapped when the start lies behind the end.
\<close>

definition substring :: "js_string \<Rightarrow> int \<Rightarrow> int \<Rightarrow> js_string" where
  "substring s start end =
     (let len = int (length s);
          finalStart = min (max start 0) len;
          finalEnd = min (max end 0) len;
          from = nat (min finalStart finalEnd);
          to = nat (max finalStart finalEnd)
      in take (to - from) (drop from s))"

text \<open>
  \<open>String.prototype.includes(searchString)\<close>: some position of the string starts an
  occurrence of \<open>searchString\<close>; code units are compared exactly, with no case folding.
\<close>

fun includes_str :: "js_string \<Rightarrow> js_string \<Rightarrow> bool" where
  "includes_str [] searchString = (searchString = [])"
| "includes_str (c # cs) searchString =
     (take (length searchString) (c # cs) = searchString \<or> includes_str cs searchString)"

text \<open>
  The decimal rendering of an integer, as a template literal \<open>${n}\<close> produces it for
  the integers that occur here (lengths, indices and status codes).
\<close>

fun digits :: "nat \<Rightarrow> string" where
  "digits n =
     (if n < 10 then [''0123456789'' ! n]
      else digits (n div 10) @ [''0123456789'' ! (n mod 10)])"

declare digits.simps [simp del]

definition number_toString :: "int \<Rightarrow> js_string" where
  "number_toString n =
     (if n < 0 then lit ''-'' @ lit (digits (nat (- n))) else lit (digits (nat n)))"

subsection \<open>The window over the rendered text\<close>

text \<open>
  The input schema of the tool: \<open>max_length\<close> is \<open>z.number().min(1).max(1000000)\<close>
  with default 5000, \<open>start_index\<close> is \<open>z.number().min(0)\<close> with default 0. The
  handler only runs on arguments that passed the schema. The tool contract gives both
  as integers, and they are integers here; \<open>z.number()\<close> alone would also let a
  fraction through, which \<open>slice\<close> truncates, and fractions are outside this model.
\<close>

definition max_length_schema :: "int \<Rightarrow> bool" where
  "max_length_schema max_length = (1 \<le> max_length \<and> max_length \<le> 1000000)"

definition start_index_schema :: "int \<Rightarrow> bool" where
  "start_index_schema start_index = (0 \<le> start_index)"

text \<open>
  Lines 124 to 144 of the handler. The source builds \<open>finalContent\<close> in three
  branches; \<open>paginate\<close> returns which branch was taken and with what, and
  \<open>render\<close> is the text the branch assigns to \<open>finalContent\<close>:
  \<^item> \<open>No_more_content\<close>: \<open>start_index >= originalLength\<close>, or the slice is the empty
    string (\<open>!truncatedContent\<close>);
  \<^item> \<open>Slice s None\<close>: \<open>finalContent = truncatedContent\<close>;
  \<^item> \<open>Slice s (Some n)\<close>: the continuation sentence naming \<open>nextStart = n\<close> is
    appended.
\<close>

datatype paginated = No_more_content | Slice js_string "int option"

definition paginate :: "js_string \<Rightarrow> int \<Rightarrow> int \<Rightarrow> paginated" where
  "paginate content start_index max_length =
     (let originalLength = int (length content) in
      if start_index \<ge> originalLength then No_more_content
      else
        let truncatedContent = slice_str content start_index (start_index + max_length) in
        if truncatedContent = [] then No_more_content
        else
          let actualContentLength = int (length truncatedContent);
              remainingContent = originalLength - (start_index + actualContentLength)
          in if actualContentLength = max_length \<and> remainingContent > 0
             then Slice truncatedContent (Some (start_index + actualContentLength))
             else Slice truncatedContent None)"

definition no_more_content :: js_string where
  "no_more_content = lit ''<error>No more content available.</error>''"

definition newline :: js_string where
  "newline = lit [CHR 0x0A]"

definition continuation_prompt :: "int \<Rightarrow> js_string" where
  "continuation_prompt nextStart =
     newline @ newline
     @ lit ''<error>Content truncated. Call the fetch tool with a start_index of ''
     @ number_toString nextStart @ lit '' to get more content.</error>''"

fun render :: "paginated \<Rightarrow> js_string" where
  "render No_more_content = no_more_content"
| "render (Slice truncatedContent None) = truncatedContent"
| "render (Slice truncatedContent (Some nextStart)) =
     truncatedContent @ continuation_prompt nextStart"

definition finalContent :: "js_string \<Rightarrow> int \<Rightarrow> int \<Rightarrow> js_string" where
  "finalContent content start_index max_length =
     render (paginate content start_index max_length)"

subsection \<open>The platform and the libraries\<close>

text \<open>
  A thrown value is either an \<open>Error\<close> instance, of which the source reads
  \<open>message\<close>, or something else, of which the source takes the string conversion
  \<open>${error}\<close>; the constructor carries that text.
\<close>

datatype thrown = Error_instance js_string | Non_error js_string

text \<open>
  The \<open>Response\<close> of \<open>fetch\<close>, as far as the source reads it: \<open>ok\<close>, \<open>status\<close>,
  \<open>headers.get('content-type')\<close> (\<open>None\<close> is \<open>null\<close>, the header is absent) and the awaited
  \<open>text()\<close>, which may reject.
\<close>

record response =
  ok :: bool
  status :: int
  content_type_header :: "js_string option"
  text_body :: "thrown + js_string"

text \<open>The article of \<open>reader.parse()\<close>; its \<open>content\<close> may be \<open>null\<close>.\<close>

record article =
  article_content :: "js_string option"

text \<open>
  \<^item> \<open>URL_protocol u\<close>: the \<open>protocol\<close> of \<open>new URL(u)\<close>, or the message of the
    \<open>TypeError\<close> the constructor throws;
  \<^item> \<open>fetch u ua\<close>: the awaited \<open>fetch(u, ...)\<close> with the given user agent, redirects
    followed and the 30 second abort signal; \<open>Inl\<close> when the promise rejects;
  \<^item> \<open>JSDOM html\<close>: \<open>new JSDOM(html).window.document\<close>;
  \<^item> \<open>Readability_parse doc\<close>: \<open>new Readability(doc, ...).parse()\<close> with the options of
    the source; \<open>None\<close> is \<open>null\<close>;
  \<^item> \<open>turndown c\<close>: \<open>new TurndownService(...).turndown(c)\<close> with the options of the
    source.
\<close>

record 'dom platform =
  URL_protocol :: "js_string \<Rightarrow> js_string + js_string"
  fetch :: "js_string \<Rightarrow> js_string \<Rightarrow> thrown + response"
  JSDOM :: "js_string \<Rightarrow> thrown + 'dom"
  Readability_parse :: "'dom \<Rightarrow> thrown + article option"
  turndown :: "js_string \<Rightarrow> thrown + js_string"

datatype event =
    Fetch_call js_string js_string
  | JSDOM_call js_string
  | Readability_call
  | Turndown_call js_string
  | Console_error

subsection \<open>extractContentFromHtml\<close>

definition not_simplified :: js_string where
  "not_simplified = lit ''<error>Page failed to be simplified from HTML</error>''"

definition extraction_failed :: js_string where
  "extraction_failed = lit ''<error>Failed to extract content from HTML</error>''"

text \<open>
  The whole body is inside \<open>try\<close>: whatever one of the three library calls throws is
  logged with \<open>console.error\<close> and replaced by a fixed marker.
  \<open>!article || !article.content\<close> holds when there is no article, or when its content is
  \<open>null\<close> or the empty string.
\<close>

definition extractContentFromHtml ::
  "'dom platform \<Rightarrow> js_string \<Rightarrow> js_string \<times> event list" where
  "extractContentFromHtml P html =
     (case JSDOM P html of
        Inl error \<Rightarrow> (extraction_failed, [JSDOM_call html, Console_error])
      | Inr doc \<Rightarrow>
          (case Readability_parse P doc of
             Inl error \<Rightarrow>
               (extraction_failed, [JSDOM_call html, Readability_call, Console_error])
           | Inr None \<Rightarrow> (not_simplified, [JSDOM_call html, Readability_call])
           | Inr (Some article) \<Rightarrow>
               (case article_content article of
                  None \<Rightarrow> (not_simplified, [JSDOM_call html, Readability_call])
                | Some c \<Rightarrow>
                    if c = [] then (not_simplified, [JSDOM_call html, Readability_call])
                    else
                      (case turndown P c of
                         Inl error \<Rightarrow>
                           (extraction_failed,
                            [JSDOM_call html, Readability_call, Turndown_call c,
                             Console_error])
                       | Inr markdown \<Rightarrow>
                           (markdown,
                            [JSDOM_call html, Readability_call, Turndown_call c])))))"

subsection \<open>fetchUrl\<close>

text \<open>The test of lines 78 to 80.\<close>

definition isPageHtml :: "js_string \<Rightarrow> js_string \<Rightarrow> bool" where
  "isPageHtml pageRaw contentType =
     (includes_str (substring pageRaw 0 100) (lit ''<html'')
      \<or> includes_str contentType (lit ''text/html'')
      \<or> contentType = [])"

text \<open>
  The \<open>catch\<close> of \<open>fetchUrl\<close> wraps whatever was thrown inside the \<open>try\<close> into a new
  \<open>Error\<close>, whose message is what \<open>fetchUrl\<close> returns on the left here.
\<close>

fun failed_to_fetch :: "js_string \<Rightarrow> thrown \<Rightarrow> js_string" where
  "failed_to_fetch url (Error_instance message) =
     lit ''Failed to fetch '' @ url @ lit '': '' @ message"
| "failed_to_fetch url (Non_error str) =
     lit ''Failed to fetch '' @ url @ lit '': '' @ str"

definition raw_prefix :: "js_string \<Rightarrow> js_string" where
  "raw_prefix contentType =
     lit ''Content type '' @ contentType
     @ lit '' cannot be simplified to markdown, but here is the raw content:'' @ newline"

definition fetchUrl ::
  "'dom platform \<Rightarrow> js_string \<Rightarrow> js_string \<Rightarrow> bool
     \<Rightarrow> (js_string + js_string \<times> js_string) \<times> event list" where
  "fetchUrl P url userAgent forceRaw =
     (case fetch P url userAgent of
        Inl error \<Rightarrow> (Inl (failed_to_fetch url error), [Fetch_call url userAgent])
      | Inr response \<Rightarrow>
          if \<not> ok response
          then (Inl (failed_to_fetch url
                       (Error_instance
                          (lit ''Failed to fetch '' @ url @ lit '' - status code ''
                           @ number_toString (status response)))),
                [Fetch_call url userAgent])
          else
            let contentType =
                  (case content_type_header response of None \<Rightarrow> [] | Some h \<Rightarrow> h) in
            (case text_body response of
               Inl error \<Rightarrow> (Inl (failed_to_fetch url error), [Fetch_call url userAgent])
             | Inr pageRaw \<Rightarrow>
                 if isPageHtml pageRaw contentType \<and> \<not> forceRaw
                 then
                   let (content, events) = extractContentFromHtml P pageRaw
                   in (Inr (content, []), Fetch_call url userAgent # events)
                 else (Inr (pageRaw, raw_prefix contentType), [Fetch_call url userAgent])))"

subsection \<open>The tool handler\<close>

definition DEFAULT_USER_AGENT_AUTONOMOUS :: js_string where
  "DEFAULT_USER_AGENT_AUTONOMOUS =
     lit ''ModelContextProtocol/1.0 (Autonomous; +https://github.com/modelcontextprotocol/servers)''"

record fetch_args =
  url :: js_string
  max_length :: int
  start_index :: int
  raw :: bool

text \<open>
  The result of the handler: one text item, and \<open>isError\<close>, which the successful
  return leaves out (\<open>None\<close>) and the \<open>catch\<close> sets to \<open>true\<close>.
\<close>

record tool_result =
  text_item :: js_string
  isError :: "bool option"

definition failure :: "js_string \<Rightarrow> tool_result" where
  "failure message =
     \<lparr>text_item = lit ''Failed to fetch content: '' @ message, isError = Some True\<rparr>"

definition only_http :: js_string where
  "only_http = lit ''Only HTTP and HTTPS URLs are supported''"

definition fetch_tool :: "'dom platform \<Rightarrow> fetch_args \<Rightarrow> tool_result \<times> event list" where
  "fetch_tool P args =
     (case URL_protocol P (url args) of
        Inl message \<Rightarrow> (failure message, [])
      | Inr protocol \<Rightarrow>
          if protocol \<notin> set [lit ''http:'', lit ''https:'']
          then (failure only_http, [])
          else
            (case fetchUrl P (url args) DEFAULT_USER_AGENT_AUTONOMOUS (raw args) of
               (Inl message, events) \<Rightarrow> (failure message, events)
             | (Inr (content, prefix), events) \<Rightarrow>
                 (\<lparr>text_item =
                      prefix @ lit ''Contents of '' @ url args @ lit '':'' @ newline
                      @ finalContent content (start_index args) (max_length args),
                    isError = None\<rparr>,
                  events)))"

subsection \<open>Notions used to state the properties\<close>

text \<open>
  The paginator of the specification speaks of the slice "after trimming". The source
  never trims; \<open>trim\<close> is \<open>String.prototype.trim\<close>, the operation those words name (it
  removes leading and trailing white space and line terminators), and serves only to
  state that step.
\<close>

definition is_white_space :: "code_unit \<Rightarrow> bool" where
  "is_white_space c =
     (c \<in> set [0x09, 0x0A, 0x0B, 0x0C, 0x0D, 0x20, 0xA0, 0x1680,
                0x2000, 0x2001, 0x2002, 0x2003, 0x2004, 0x2005, 0x2006, 0x2007, 0x2008,
                0x2009, 0x200A, 0x2028, 0x2029, 0x202F, 0x205F, 0x3000, 0xFEFF])"

definition trim :: "js_string \<Rightarrow> js_string" where
  "trim s = rev (dropWhile is_white_space (rev (dropWhile is_white_space s)))"

text \<open>
  One of the library calls of \<open>extractContentFromHtml\<close> throws: the parser, the
  extraction, or the conversion (which is reached only with a non-empty content).
\<close>

definition extraction_throws :: "'dom platform \<Rightarrow> js_string \<Rightarrow> bool" where
  "extraction_throws P html =
     (case JSDOM P html of
        Inl error \<Rightarrow> True
      | Inr doc \<Rightarrow>
          (case Readability_parse P doc of
             Inl error \<Rightarrow> True
           | Inr None \<Rightarrow> False
           | Inr (Some article) \<Rightarrow>
               (case article_content article of
                  None \<Rightarrow> False
                | Some c \<Rightarrow>
                    c \<noteq> [] \<and> (case turndown P c of Inl error \<Rightarrow> True | Inr markdown \<Rightarrow> False))))"

text \<open>
  A platform to run the handler on: the protocol of a URL is its text up to the first
  colon, every request is answered with status 200, the given \<open>content-type\<close> header
  and the given body, the parser returns \<open>document\<close>, the extraction finds an article
  whose content is the text \<open>article\<close>, and the conversion returns its
  input.
\<close>

definition example_platform ::
  "js_string option \<Rightarrow> js_string \<Rightarrow> thrown + unit \<Rightarrow> js_string \<Rightarrow> unit platform" where
  "example_platform contentType body document article =
     \<lparr>URL_protocol = (\<lambda>u. Inr (takeWhile (\<lambda>c. c \<noteq> of_char CHR '':'') u @ lit '':'')),
      fetch = (\<lambda>u userAgent.
                 Inr \<lparr>ok = True, status = 200, content_type_header = contentType,
                      text_body = Inr body\<rparr>),
      JSDOM = (\<lambda>html. document),
      Readability_parse = (\<lambda>doc. Inr (Some \<lparr>article_content = Some article\<rparr>)),
      turndown = (\<lambda>c. Inr c)\<rparr>"

subsection \<open>Helper facts about slicing\<close>

lemma slice_str_in_range:
  assumes "0 \<le> start" and "start < int (length s)" and "0 \<le> n"
  shows "slice_str s start (start + n) = take (nat n) (drop (nat start) s)"
proof -
  have "relative_index start (length s) = nat start"
    using assms by (simp add: relative_index_def)
  moreover have "relative_index (start + n) (length s) - nat start = min (nat n) (length s - nat start)"
    using assms by (auto simp: relative_index_def min_def)
  ultimately show ?thesis
    by (simp add: slice_str_def Let_def min_def)
qed

lemma length_slice_str_in_range:
  assumes "0 \<le> start" and "start < int (length s)" and "0 \<le> n"
  shows "int (length (slice_str s start (start + n))) = min n (int (length s) - start)"
proof -
  have "int (length (take (nat n) (drop (nat start) s))) = min n (int (length s) - start)"
    using assms by (simp add: min_def) linarith
  then show ?thesis
    using assms by (simp only: slice_str_in_range)
qed

lemma includes_str_iff: "includes_str s n \<longleftrightarrow> (\<exists>p q. s = p @ n @ q)"
proof (induction s)
  case Nil
  show ?case by auto
next
  case (Cons c cs)
  show ?case
  proof
    assume "includes_str (c # cs) n"
    then consider "take (length n) (c # cs) = n" | "includes_str cs n" by auto
    then show "\<exists>p q. c # cs = p @ n @ q"
    proof cases
      case 1
      then have "c # cs = [] @ n @ drop (length n) (c # cs)"
        by (metis append_Nil append_take_drop_id)
      then show ?thesis by blast
    next
      case 2
      then obtain p q where "cs = p @ n @ q" using Cons.IH by blast
      then have "c # cs = (c # p) @ n @ q" by simp
      then show ?thesis by blast
    qed
  next
    assume "\<exists>p q. c # cs = p @ n @ q"
    then obtain p q where pq: "c # cs = p @ n @ q" by blast
    show "includes_str (c # cs) n"
    proof (cases p)
      case Nil
      then have "take (length n) (c # cs) = n" using pq by simp
      then show ?thesis by simp
    next
      case (Cons a p')
      then have "cs = p' @ n @ q" using pq by simp
      then have "includes_str cs n" using Cons.IH by blast
      then show ?thesis by simp
    qed
  qed
qed

lemma substring_from_0: "0 \<le> n \<Longrightarrow> substring s 0 n = take (nat n) s"
  by (auto simp: substring_def Let_def min_def max_def)

lemma slice_str_is_substring: "\<exists>p q. s = p @ slice_str s a b @ q"
proof -
  obtain j k where "slice_str s a b = take k (drop j s)"
    by (simp add: slice_str_def Let_def)
  moreover have "s = take j s @ take k (drop j s) @ drop k (drop j s)"
    by (simp only: append_take_drop_id)
  ultimately have "s = take j s @ slice_str s a b @ drop k (drop j s)"
    by simp
  then show ?thesis by blast
qed

lemma paginate_in_range:
  assumes "0 \<le> startIndex" and "startIndex < int (length content)" and "1 \<le> maxLength"
  shows "paginate content startIndex maxLength =
           Slice (slice_str content startIndex (startIndex + maxLength))
             (if startIndex + maxLength < int (length content)
              then Some (startIndex + maxLength) else None)"
proof -
  let ?sl = "slice_str content startIndex (startIndex + maxLength)"
  have len: "int (length ?sl) = min maxLength (int (length content) - startIndex)"
    using assms by (simp add: length_slice_str_in_range)
  then have "0 < int (length ?sl)" using assms by simp
  then have ne: "?sl \<noteq> []" by auto
  show ?thesis
  proof (cases "startIndex + maxLength < int (length content)")
    case True
    then have "int (length ?sl) = maxLength" using len by simp
    then show ?thesis using assms ne True by (simp add: paginate_def Let_def)
  next
    case False
    then have "int (length ?sl) = int (length content) - startIndex" using len by simp
    then show ?thesis using assms ne False by (simp add: paginate_def Let_def)
  qed
qed


subsection \<open>Helper facts about the handler\<close>

lemma example_protocol_http:
  "URL_protocol (example_platform ct body d a) (lit ''http://example.com/'') = Inr (lit ''http:'')"
  by (simp add: example_platform_def lit_def)

lemma raw_prefix_not_Nil: "raw_prefix contentType \<noteq> []"
  by (simp add: raw_prefix_def lit_def)

lemma fetchUrl_forceRaw:
  assumes "fetch P u ua = Inr response" and "ok response"
    and "text_body response = Inr pageRaw"
  shows "fetchUrl P u ua True =
           (Inr (pageRaw,
                 raw_prefix (case content_type_header response of None \<Rightarrow> [] | Some h \<Rightarrow> h)),
            [Fetch_call u ua])"
  using assms by (simp add: fetchUrl_def)

lemma handler_paginates:
  assumes "URL_protocol P (url args) = Inr protocol"
    and "protocol = lit ''http:'' \<or> protocol = lit ''https:''"
    and "fetchUrl P (url args) DEFAULT_USER_AGENT_AUTONOMOUS (raw args)
           = (Inr (content, prefix), events)"
  shows "fetch_tool P args =
           (\<lparr>text_item = prefix @ lit ''Contents of '' @ url args @ lit '':'' @ newline
                           @ render (paginate content (start_index args) (max_length args)),
             isError = None\<rparr>, events)"
  using assms by (auto simp: fetch_tool_def finalContent_def)

lemma extraction_throws_marker:
  assumes "extraction_throws P html"
  shows "fst (extractContentFromHtml P html) = extraction_failed"
  using assms
  by (auto simp: extraction_throws_def extractContentFromHtml_def
      split: sum.splits option.splits if_splits)

lemma markers_distinct: "extraction_failed \<noteq> not_simplified"
  by (simp add: extraction_failed_def not_simplified_def lit_def)


section \<open>The pagination window\<close>

text \<open>
  C1. For a start index inside the text and a \<open>max_length\<close> that the schema admits,
  the handler returns the slice \<open>content.slice(start_index, start_index + max_length)\<close>,
  and it appends the continuation sentence exactly when the slice is \<open>max_length\<close> code
  units long and text remains behind it; the sentence then names the start index plus
  the length of the slice, and \<open>finalContent\<close> is the slice followed by that sentence,
  or the slice alone.
\<close>

theorem continuation_iff:
  assumes "0 \<le> startIndex" and "startIndex < int (length content)"
    and "max_length_schema maxLength"
  shows "\<exists>c. paginate content startIndex maxLength =
               Slice (slice_str content startIndex (startIndex + maxLength)) c
           \<and> (c \<noteq> None \<longleftrightarrow>
                int (length (slice_str content startIndex (startIndex + maxLength))) = maxLength
                \<and> startIndex + int (length (slice_str content startIndex (startIndex + maxLength)))
                    < int (length content))
           \<and> (c \<noteq> None \<longrightarrow>
                c = Some (startIndex
                          + int (length (slice_str content startIndex (startIndex + maxLength)))))
           \<and> finalContent content startIndex maxLength =
                slice_str content startIndex (startIndex + maxLength)
                @ (case c of None \<Rightarrow> [] | Some nextStart \<Rightarrow> continuation_prompt nextStart)"
proof -
  let ?sl = "slice_str content startIndex (startIndex + maxLength)"
  have m: "1 \<le> maxLength" using assms(3) by (simp add: max_length_schema_def)
  have len: "int (length ?sl) = min maxLength (int (length content) - startIndex)"
    using assms m by (simp add: length_slice_str_in_range)
  show ?thesis
  proof (cases "startIndex + maxLength < int (length content)")
    case True
    then have "paginate content startIndex maxLength = Slice ?sl (Some (startIndex + maxLength))"
      using assms m by (simp add: paginate_in_range)
    moreover have "int (length ?sl) = maxLength" using len True by simp
    ultimately show ?thesis using True by (simp add: finalContent_def)
  next
    case False
    then have "paginate content startIndex maxLength = Slice ?sl None"
      using assms m by (simp add: paginate_in_range)
    moreover have "\<not> (int (length ?sl) = maxLength \<and> startIndex + int (length ?sl) < int (length content))"
      using len False by auto
    ultimately show ?thesis by (simp add: finalContent_def)
  qed
qed

theorem continuation_iff_witness:
  "paginate (lit ''abcdefghij'') 0 4 = Slice (lit ''abcd'') (Some 4)
   \<and> paginate (lit ''abcdefghij'') 8 4 = Slice (lit ''ij'') None
   \<and> paginate (lit ''abcdefghij'') 6 4 = Slice (lit ''ghij'') None"
proof -
  have s: "max_length_schema 4" by (simp add: max_length_schema_def)
  have l: "length (lit ''abcdefghij'') = 10" by (simp add: lit_def)
  have a: "slice_str (lit ''abcdefghij'') 0 (0 + 4) = lit ''abcd''"
    by (simp add: slice_str_def relative_index_def lit_def)
  have b: "slice_str (lit ''abcdefghij'') 8 (8 + 4) = lit ''ij''"
    by (simp add: slice_str_def relative_index_def lit_def)
  have c: "slice_str (lit ''abcdefghij'') 6 (6 + 4) = lit ''ghij''"
    by (simp add: slice_str_def relative_index_def lit_def)
  have la: "length (lit ''abcd'') = 4" "length (lit ''ij'') = 2" "length (lit ''ghij'') = 4"
    by (simp_all add: lit_def)
  show ?thesis
    using continuation_iff [of 0 "lit ''abcdefghij''" 4, OF _ _ s]
      continuation_iff [of 8 "lit ''abcdefghij''" 4, OF _ _ s]
      continuation_iff [of 6 "lit ''abcdefghij''" 4, OF _ _ s]
    unfolding a b c l la by auto
qed

text \<open>
  C2. For a start index inside the text and a \<open>max_length\<close> that the schema admits,
  the slice returned is \<open>min(max_length, length - start_index)\<close> code units long.
\<close>

theorem slice_length:
  assumes "0 \<le> startIndex" and "startIndex < int (length content)"
    and "max_length_schema maxLength"
  shows "\<exists>sl c. paginate content startIndex maxLength = Slice sl c
           \<and> int (length sl) = min maxLength (int (length content) - startIndex)"
proof -
  have m: "1 \<le> maxLength" using assms(3) by (simp add: max_length_schema_def)
  then show ?thesis
    using assms(1,2) by (simp add: paginate_in_range length_slice_str_in_range)
qed

theorem slice_length_witness:
  "\<exists>sl c. paginate (lit ''abcdefghij'') 8 4 = Slice sl c \<and> int (length sl) = 2"
proof -
  have s: "max_length_schema 4" by (simp add: max_length_schema_def)
  have l: "length (lit ''abcdefghij'') = 10" by (simp add: lit_def)
  show ?thesis
    using slice_length [of 8 "lit ''abcdefghij''" 4, OF _ _ s] unfolding l by simp
qed

text \<open>
  C9. When a response carries the continuation sentence, the index it names lies
  strictly between 0 and the length of the text, so the next call with that index (and
  any \<open>max_length\<close> of the schema) returns a slice that is not empty, never the
  "no more content" marker.
\<close>

theorem next_start_in_range:
  assumes "start_index_schema startIndex" and "max_length_schema maxLength"
    and "paginate content startIndex maxLength = Slice sl (Some nextStartIndex)"
  shows "0 < nextStartIndex \<and> nextStartIndex < int (length content)
         \<and> (\<forall>m. max_length_schema m \<longrightarrow>
               (\<exists>sl' c. paginate content nextStartIndex m = Slice sl' c \<and> sl' \<noteq> []))"
proof -
  have s: "0 \<le> startIndex" using assms(1) by (simp add: start_index_schema_def)
  have m: "1 \<le> maxLength" using assms(2) by (simp add: max_length_schema_def)
  have r: "startIndex < int (length content)"
    using assms(3) by (auto simp: paginate_def Let_def split: if_splits)
  have "paginate content startIndex maxLength =
          Slice (slice_str content startIndex (startIndex + maxLength))
            (if startIndex + maxLength < int (length content)
             then Some (startIndex + maxLength) else None)"
    using s r m by (rule paginate_in_range)
  then have n: "nextStartIndex = startIndex + maxLength"
    and lt: "startIndex + maxLength < int (length content)"
    using assms(3) by (auto split: if_splits)
  have pos: "0 < nextStartIndex" using n s m by simp
  have "\<exists>sl' c. paginate content nextStartIndex m' = Slice sl' c \<and> sl' \<noteq> []"
    if "max_length_schema m'" for m'
  proof -
    have m': "1 \<le> m'" using that by (simp add: max_length_schema_def)
    have "int (length (slice_str content nextStartIndex (nextStartIndex + m')))
            = min m' (int (length content) - nextStartIndex)"
      using pos n lt m' by (simp add: length_slice_str_in_range)
    then have "slice_str content nextStartIndex (nextStartIndex + m') \<noteq> []"
      using m' n lt by auto
    then show ?thesis
      using pos n lt m' by (simp add: paginate_in_range)
  qed
  then show ?thesis using pos n lt by blast
qed

theorem next_start_in_range_witness:
  "paginate (lit ''abcdefghij'') 0 4 = Slice (lit ''abcd'') (Some 4)
   \<and> (\<exists>sl c. paginate (lit ''abcdefghij'') 4 4 = Slice sl c \<and> sl \<noteq> [])"
proof -
  have s: "start_index_schema 0" by (simp add: start_index_schema_def)
  have m: "max_length_schema 4" by (simp add: max_length_schema_def)
  have p: "paginate (lit ''abcdefghij'') 0 4 = Slice (lit ''abcd'') (Some 4)"
    by (simp add: paginate_def slice_str_def relative_index_def lit_def)
  show ?thesis
    using next_start_in_range [OF s m p] m p by blast
qed

text \<open>
  C3. When the start index is at or behind the end of the text, the window is the
  "no more content" marker, and the handler returns it as the text of an ordinary
  result: \<open>isError\<close> is not set and nothing is thrown.
\<close>

theorem exhausted_is_content:
  assumes "int (length content) \<le> start_index args"
    and "URL_protocol P (url args) = Inr protocol"
    and "protocol = lit ''http:'' \<or> protocol = lit ''https:''"
    and "fetchUrl P (url args) DEFAULT_USER_AGENT_AUTONOMOUS (raw args)
           = (Inr (content, prefix), events)"
  shows "paginate content (start_index args) (max_length args) = No_more_content
         \<and> fetch_tool P args =
             (\<lparr>text_item = prefix @ lit ''Contents of '' @ url args @ lit '':'' @ newline
                             @ lit ''<error>No more content available.</error>'',
               isError = None\<rparr>, events)"
proof -
  have p: "paginate content (start_index args) (max_length args) = No_more_content"
    using assms(1) by (simp add: paginate_def)
  then have "finalContent content (start_index args) (max_length args)
               = lit ''<error>No more content available.</error>''"
    by (simp add: finalContent_def no_more_content_def)
  then show ?thesis
    using p assms(2,3,4) by (auto simp: fetch_tool_def)
qed

theorem exhausted_is_content_witness:
  "fetch_tool (example_platform (Some (lit ''text/plain'')) (lit ''abcdefghij'') (Inr ()) (lit ''x''))
      \<lparr>url = lit ''http://example.com/'', max_length = 5, start_index = 10, raw = False\<rparr>
   = (\<lparr>text_item = lit ''Content type text/plain cannot be simplified to markdown, but here is the raw content:''
                   @ newline @ lit ''Contents of http://example.com/:'' @ newline
                   @ lit ''<error>No more content available.</error>'',
        isError = None\<rparr>,
      [Fetch_call (lit ''http://example.com/'') DEFAULT_USER_AGENT_AUTONOMOUS])"
proof -
  let ?P = "example_platform (Some (lit ''text/plain'')) (lit ''abcdefghij'') (Inr ()) (lit ''x'')"
  let ?args = "\<lparr>url = lit ''http://example.com/'', max_length = 5, start_index = 10, raw = False\<rparr>"
  have h: "\<not> isPageHtml (lit ''abcdefghij'') (lit ''text/plain'')"
    by (simp add: isPageHtml_def substring_def lit_def)
  have f: "fetchUrl ?P (url ?args) DEFAULT_USER_AGENT_AUTONOMOUS (raw ?args)
             = (Inr (lit ''abcdefghij'', raw_prefix (lit ''text/plain'')),
                [Fetch_call (lit ''http://example.com/'') DEFAULT_USER_AGENT_AUTONOMOUS])"
    using h by (simp add: fetchUrl_def example_platform_def)
  have l: "int (length (lit ''abcdefghij'')) \<le> start_index ?args" by (simp add: lit_def)
  have u: "URL_protocol ?P (url ?args) = Inr (lit ''http:'')"
    by (simp add: example_protocol_http)
  show ?thesis
    using exhausted_is_content [OF l u _ f] by (simp add: raw_prefix_def lit_def)
qed

text \<open>
  C4, as the specification words it: a slice that is empty after trimming is replaced by
  the marker. The source tests \<open>!truncatedContent\<close>, the empty string, and trims
  nothing: a slice of three spaces is returned as it is.
\<close>

theorem whitespace_slice_counterexample:
  "(0::int) < int (length (lit ''   ''))
   \<and> trim (slice_str (lit ''   '') 0 (0 + 5)) = []
   \<and> paginate (lit ''   '') 0 5 = Slice (lit ''   '') None
   \<and> finalContent (lit ''   '') 0 5 \<noteq> no_more_content"
  by (simp add: trim_def is_white_space_def paginate_def finalContent_def no_more_content_def
      slice_str_def relative_index_def lit_def)

text \<open>
  C4, amended. For a start index before the end of the text, the marker replaces the
  slice exactly when the slice is the empty string; a slice that is not empty, white
  space or not, is returned.
\<close>

theorem sentinel_iff_empty_slice:
  assumes "startIndex < int (length content)"
  shows "(paginate content startIndex maxLength = No_more_content
            \<longleftrightarrow> slice_str content startIndex (startIndex + maxLength) = [])
         \<and> (slice_str content startIndex (startIndex + maxLength) \<noteq> [] \<longrightarrow>
              (\<exists>c. paginate content startIndex maxLength
                     = Slice (slice_str content startIndex (startIndex + maxLength)) c))"
  using assms by (simp add: paginate_def Let_def)

theorem sentinel_iff_empty_slice_witness:
  "paginate (lit ''ab'') 0 0 = No_more_content
   \<and> (\<exists>c. paginate (lit '' '') 0 5 = Slice (lit '' '') c)"
proof -
  have a: "slice_str (lit ''ab'') 0 (0 + 0) = []"
    by (simp add: slice_str_def relative_index_def lit_def)
  have b: "slice_str (lit '' '') 0 (0 + 5) = lit '' ''"
    by (simp add: slice_str_def relative_index_def lit_def)
  have c: "lit '' '' \<noteq> []" by (simp add: lit_def)
  have la: "0 < int (length (lit ''ab''))" and lb: "0 < int (length (lit '' ''))"
    by (simp_all add: lit_def)
  show ?thesis
    using sentinel_iff_empty_slice [OF la, of 0] sentinel_iff_empty_slice [OF lb, of 5]
    unfolding a b using c by simp
qed

section \<open>The test for HTML\<close>

text \<open>
  C5, as the specification words it: the root tag is looked for in any letter case. The
  source calls \<open>includes('<html')\<close>, which compares code units: a page that opens with
  \<open><HTML\<close> and is declared as \<open>application/json\<close> is not taken for HTML.
\<close>

theorem upper_case_root_tag_counterexample:
  "includes_str (take 100 (lit ''<HTML><body>x</body></HTML>'')) (lit ''<HTML'')
   \<and> \<not> isPageHtml (lit ''<HTML><body>x</body></HTML>'') (lit ''application/json'')"
  by (simp add: isPageHtml_def substring_def lit_def)

text \<open>
  C5, amended. The first rule looks for \<open><html\<close> in exactly this lower case spelling,
  the code units 3C 68 74 6D 6C, among the first 100 code units of the page. A page is
  taken for HTML exactly when that occurrence exists, or the declared content type
  contains \<open>text/html\<close>, or no content type is declared: so a page that shows
  \<open><html\<close> is taken for HTML whatever content type is declared, and a page that shows
  the tag only in another letter case is not matched by the first rule.
\<close>

theorem root_tag_rule:
  "(isPageHtml pageRaw contentType \<longleftrightarrow>
      (\<exists>p q. take 100 pageRaw = p @ lit ''<html'' @ q)
      \<or> (\<exists>p q. contentType = p @ lit ''text/html'' @ q)
      \<or> contentType = [])
   \<and> lit ''<html'' = [0x3C, 0x68, 0x74, 0x6D, 0x6C]"
proof -
  have "substring pageRaw 0 100 = take 100 pageRaw"
    using substring_from_0 [of 100 pageRaw] by simp
  then have "isPageHtml pageRaw contentType \<longleftrightarrow>
      (\<exists>p q. take 100 pageRaw = p @ lit ''<html'' @ q)
      \<or> (\<exists>p q. contentType = p @ lit ''text/html'' @ q)
      \<or> contentType = []"
    by (simp add: isPageHtml_def includes_str_iff)
  moreover have "lit ''<html'' = [0x3C, 0x68, 0x74, 0x6D, 0x6C]"
    by (simp add: lit_def)
  ultimately show ?thesis by blast
qed

theorem root_tag_rule_witness:
  "isPageHtml (lit ''<!doctype html><html lang=en><body>{}</body></html>'')
     (lit ''application/json'')
   \<and> \<not> isPageHtml (lit ''<Html><body>{}</body></Html>'') (lit ''application/json'')"
proof -
  have "take 100 (lit ''<!doctype html><html lang=en><body>{}</body></html>'')
          = lit ''<!doctype html>'' @ lit ''<html'' @ lit '' lang=en><body>{}</body></html>''"
    by (simp add: lit_def)
  then have a: "isPageHtml (lit ''<!doctype html><html lang=en><body>{}</body></html>'')
                  (lit ''application/json'')"
    using root_tag_rule
      [of "lit ''<!doctype html><html lang=en><body>{}</body></html>''" "lit ''application/json''"]
    by blast
  have "\<not> includes_str (take 100 (lit ''<Html><body>{}</body></Html>'')) (lit ''<html'')"
    and "\<not> includes_str (lit ''application/json'') (lit ''text/html'')"
    and "lit ''application/json'' \<noteq> []"
    by (simp_all add: lit_def)
  then have b: "\<not> isPageHtml (lit ''<Html><body>{}</body></Html>'') (lit ''application/json'')"
    using root_tag_rule [of "lit ''<Html><body>{}</body></Html>''" "lit ''application/json''"]
    by (simp add: includes_str_iff)
  show ?thesis using a b by simp
qed

text \<open>
  C6, as the specification words it: a declared content type other than HTML makes the
  page "other" whatever the body. The test of the body comes first in the source, so a
  body that opens with \<open><html\<close> is taken for HTML even when declared as
  \<open>application/json\<close>.
\<close>

theorem declared_type_counterexample:
  "lit ''application/json'' \<noteq> []
   \<and> \<not> includes_str (lit ''application/json'') (lit ''text/html'')
   \<and> isPageHtml (lit ''<html><body>{}</body></html>'') (lit ''application/json'')"
  by (simp add: isPageHtml_def substring_def lit_def)

text \<open>
  C6, amended. When a content type is declared and does not contain \<open>text/html\<close>,
  the page is taken for HTML exactly when its first 100 code units contain
  \<open><html\<close>; otherwise it is "other".
\<close>

theorem declared_other_type:
  assumes "contentType \<noteq> []" and "\<not> includes_str contentType (lit ''text/html'')"
  shows "isPageHtml pageRaw contentType \<longleftrightarrow> (\<exists>p q. take 100 pageRaw = p @ lit ''<html'' @ q)"
proof -
  have "substring pageRaw 0 100 = take 100 pageRaw"
    using substring_from_0 [of 100 pageRaw] by simp
  then show ?thesis
    using assms by (simp add: isPageHtml_def includes_str_iff)
qed

theorem declared_other_type_witness:
  "\<not> isPageHtml (lit ''[1, 2, 3]'') (lit ''application/json'')
   \<and> isPageHtml (lit ''<html></html>'') (lit ''application/json'')"
proof -
  have a: "lit ''application/json'' \<noteq> []" by (simp add: lit_def)
  have b: "\<not> includes_str (lit ''application/json'') (lit ''text/html'')"
    by (simp add: lit_def)
  have c: "\<not> includes_str (take 100 (lit ''[1, 2, 3]'')) (lit ''<html'')"
    by (simp add: lit_def)
  have d: "includes_str (take 100 (lit ''<html></html>'')) (lit ''<html'')"
    by (simp add: lit_def)
  show ?thesis
    using declared_other_type [OF a b, of "lit ''[1, 2, 3]''"]
      declared_other_type [OF a b, of "lit ''<html></html>''"] c d
    by (simp add: includes_str_iff)
qed

section \<open>The handler\<close>

text \<open>
  C7. A URL whose protocol is neither \<open>http:\<close> nor \<open>https:\<close> is rejected: the
  result is the failure "Only HTTP and HTTPS URLs are supported", and no call to
  \<open>fetch\<close> (nor to any other collaborator) has been made.
\<close>

theorem other_scheme_rejected:
  assumes "URL_protocol P (url args) = Inr protocol"
    and "protocol \<noteq> lit ''http:''" and "protocol \<noteq> lit ''https:''"
  shows "fetch_tool P args =
           (\<lparr>text_item = lit ''Failed to fetch content: Only HTTP and HTTPS URLs are supported'',
             isError = Some True\<rparr>, [])"
  using assms by (simp add: fetch_tool_def failure_def only_http_def lit_def)

theorem other_scheme_rejected_witness:
  "fetch_tool (example_platform (Some (lit ''text/plain'')) (lit ''abcdefghij'') (Inr ()) (lit ''x''))
      \<lparr>url = lit ''ftp://example.com/file.txt'', max_length = 5000, start_index = 0, raw = False\<rparr>
   = (\<lparr>text_item = lit ''Failed to fetch content: Only HTTP and HTTPS URLs are supported'',
        isError = Some True\<rparr>, [])"
proof -
  let ?P = "example_platform (Some (lit ''text/plain'')) (lit ''abcdefghij'') (Inr ()) (lit ''x'')"
  let ?args = "\<lparr>url = lit ''ftp://example.com/file.txt'', max_length = 5000, start_index = 0, raw = False\<rparr>"
  have u: "URL_protocol ?P (url ?args) = Inr (lit ''ftp:'')"
    by (simp add: example_platform_def lit_def)
  have a: "lit ''ftp:'' \<noteq> lit ''http:''" and b: "lit ''ftp:'' \<noteq> lit ''https:''"
    by (simp_all add: lit_def)
  show ?thesis by (rule other_scheme_rejected [OF u a b])
qed

text \<open>
  C8. With \<open>raw\<close> set, a page that was fetched successfully is not handed to the
  parser, the extraction or the conversion (the only event is the request); the text
  windowed is the fetched body itself, so every slice is a contiguous part of it; the
  prefix that explains the raw content is not empty; and the window is computed by the
  same \<open>paginate\<close>, on the same \<open>start_index\<close> and \<open>max_length\<close>, as for whatever
  \<open>fetchUrl\<close> returns without \<open>raw\<close>.
\<close>

theorem raw_bypasses_extraction:
  assumes "raw args"
    and "URL_protocol P (url args) = Inr protocol"
    and "protocol = lit ''http:'' \<or> protocol = lit ''https:''"
    and "fetch P (url args) DEFAULT_USER_AGENT_AUTONOMOUS = Inr response"
    and "ok response"
    and "text_body response = Inr pageRaw"
    and "contentType = (case content_type_header response of None \<Rightarrow> [] | Some h \<Rightarrow> h)"
  shows "fetch_tool P args =
           (\<lparr>text_item = raw_prefix contentType @ lit ''Contents of '' @ url args @ lit '':''
                           @ newline
                           @ render (paginate pageRaw (start_index args) (max_length args)),
             isError = None\<rparr>,
            [Fetch_call (url args) DEFAULT_USER_AGENT_AUTONOMOUS])
         \<and> raw_prefix contentType \<noteq> []
         \<and> (\<forall>sl c. paginate pageRaw (start_index args) (max_length args) = Slice sl c \<longrightarrow>
               sl = slice_str pageRaw (start_index args) (start_index args + max_length args)
               \<and> (\<exists>p q. pageRaw = p @ sl @ q))
         \<and> (\<forall>content prefix events.
               fetchUrl P (url args) DEFAULT_USER_AGENT_AUTONOMOUS False
                 = (Inr (content, prefix), events) \<longrightarrow>
               fetch_tool P (args\<lparr>raw := False\<rparr>) =
                 (\<lparr>text_item = prefix @ lit ''Contents of '' @ url args @ lit '':'' @ newline
                                 @ render (paginate content (start_index args) (max_length args)),
                   isError = None\<rparr>, events))"
proof -
  have f: "fetchUrl P (url args) DEFAULT_USER_AGENT_AUTONOMOUS (raw args) =
             (Inr (pageRaw, raw_prefix contentType),
              [Fetch_call (url args) DEFAULT_USER_AGENT_AUTONOMOUS])"
    using assms(1) fetchUrl_forceRaw [OF assms(4,5,6)] assms(7) by simp
  have 1: "fetch_tool P args =
           (\<lparr>text_item = raw_prefix contentType @ lit ''Contents of '' @ url args @ lit '':''
                           @ newline
                           @ render (paginate pageRaw (start_index args) (max_length args)),
             isError = None\<rparr>,
            [Fetch_call (url args) DEFAULT_USER_AGENT_AUTONOMOUS])"
    by (rule handler_paginates [OF assms(2,3) f])
  have 2: "raw_prefix contentType \<noteq> []" by (rule raw_prefix_not_Nil)
  have 3: "sl = slice_str pageRaw (start_index args) (start_index args + max_length args)
               \<and> (\<exists>p q. pageRaw = p @ sl @ q)"
    if "paginate pageRaw (start_index args) (max_length args) = Slice sl c" for sl c
  proof -
    have "sl = slice_str pageRaw (start_index args) (start_index args + max_length args)"
      using that by (auto simp: paginate_def Let_def split: if_splits)
    then show ?thesis using slice_str_is_substring by blast
  qed
  have 4: "fetch_tool P (args\<lparr>raw := False\<rparr>) =
                 (\<lparr>text_item = prefix @ lit ''Contents of '' @ url args @ lit '':'' @ newline
                                 @ render (paginate content (start_index args) (max_length args)),
                   isError = None\<rparr>, events)"
    if "fetchUrl P (url args) DEFAULT_USER_AGENT_AUTONOMOUS False
                 = (Inr (content, prefix), events)" for content prefix events
    using handler_paginates [of P "args\<lparr>raw := False\<rparr>" protocol content prefix events]
      assms(2,3) that by simp
  show ?thesis using 1 2 3 4 by blast
qed

theorem raw_bypasses_extraction_witness:
  "fetch_tool
     (example_platform (Some (lit ''text/html'')) (lit ''<html><body>hello</body></html>'')
        (Inr ()) (lit ''hello''))
     \<lparr>url = lit ''http://example.com/'', max_length = 6, start_index = 6, raw = True\<rparr>
   = (\<lparr>text_item =
          lit ''Content type text/html cannot be simplified to markdown, but here is the raw content:''
          @ newline @ lit ''Contents of http://example.com/:'' @ newline @ lit ''<body>''
          @ newline @ newline
          @ lit ''<error>Content truncated. Call the fetch tool with a start_index of 12 to get more content.</error>'',
        isError = None\<rparr>,
      [Fetch_call (lit ''http://example.com/'') DEFAULT_USER_AGENT_AUTONOMOUS])"
proof -
  let ?body = "lit ''<html><body>hello</body></html>''"
  let ?P = "example_platform (Some (lit ''text/html'')) ?body (Inr ()) (lit ''hello'')"
  let ?args = "\<lparr>url = lit ''http://example.com/'', max_length = 6, start_index = 6, raw = True\<rparr>"
  let ?r = "\<lparr>ok = True, status = 200, content_type_header = Some (lit ''text/html''),
             text_body = Inr ?body\<rparr>"
  have r: "raw ?args" by simp
  have u: "URL_protocol ?P (url ?args) = Inr (lit ''http:'')"
    by (simp add: example_protocol_http)
  have f: "fetch ?P (url ?args) DEFAULT_USER_AGENT_AUTONOMOUS = Inr ?r"
    by (simp add: example_platform_def)
  have o: "ok ?r" and t: "text_body ?r = Inr ?body" by simp_all
  have c: "lit ''text/html'' = (case content_type_header ?r of None \<Rightarrow> [] | Some h \<Rightarrow> h)"
    by simp
  have p: "paginate ?body 6 6 = Slice (lit ''<body>'') (Some 12)"
    by (simp add: paginate_def slice_str_def relative_index_def lit_def)
  have n: "number_toString 12 = lit ''12''"
    by (simp add: number_toString_def digits.simps lit_def)
  show ?thesis
    using raw_bypasses_extraction [OF r u _ f o t c] p n
    by (simp add: raw_prefix_def continuation_prompt_def lit_def)
qed

text \<open>
  C10. When the parser, the extraction or the conversion throws,
  \<open>extractContentFromHtml\<close> returns the marker "Failed to extract content from HTML",
  which differs from the marker for a page without article; the handler then returns
  an ordinary result (\<open>isError\<close> not set) whose text is the window over that marker.
\<close>

theorem thrown_extraction_is_content:
  assumes "extraction_throws P html"
  shows "fst (extractContentFromHtml P html)
           = lit ''<error>Failed to extract content from HTML</error>''
         \<and> lit ''<error>Failed to extract content from HTML</error>''
             \<noteq> lit ''<error>Page failed to be simplified from HTML</error>''
         \<and> (\<forall>args protocol response contentType.
               URL_protocol P (url args) = Inr protocol
               \<and> (protocol = lit ''http:'' \<or> protocol = lit ''https:'')
               \<and> fetch P (url args) DEFAULT_USER_AGENT_AUTONOMOUS = Inr response
               \<and> ok response \<and> text_body response = Inr html
               \<and> contentType = (case content_type_header response of None \<Rightarrow> [] | Some h \<Rightarrow> h)
               \<and> isPageHtml html contentType \<and> \<not> raw args
               \<longrightarrow> fst (fetch_tool P args) =
                     \<lparr>text_item = lit ''Contents of '' @ url args @ lit '':'' @ newline
                        @ render (paginate (lit ''<error>Failed to extract content from HTML</error>'')
                                    (start_index args) (max_length args)),
                      isError = None\<rparr>)"
proof -
  have m: "fst (extractContentFromHtml P html)
             = lit ''<error>Failed to extract content from HTML</error>''"
    using extraction_throws_marker [OF assms] by (simp add: extraction_failed_def)
  have d: "lit ''<error>Failed to extract content from HTML</error>''
             \<noteq> lit ''<error>Page failed to be simplified from HTML</error>''"
    using markers_distinct by (simp add: extraction_failed_def not_simplified_def)
  have "fst (fetch_tool P args) =
          \<lparr>text_item = lit ''Contents of '' @ url args @ lit '':'' @ newline
             @ render (paginate (lit ''<error>Failed to extract content from HTML</error>'')
                         (start_index args) (max_length args)),
           isError = None\<rparr>"
    if u: "URL_protocol P (url args) = Inr protocol"
      and p: "protocol = lit ''http:'' \<or> protocol = lit ''https:''"
      and f: "fetch P (url args) DEFAULT_USER_AGENT_AUTONOMOUS = Inr response"
      and o: "ok response" and t: "text_body response = Inr html"
      and h: "isPageHtml html (case content_type_header response of None \<Rightarrow> [] | Some h \<Rightarrow> h)"
      and r: "\<not> raw args"
    for args protocol response
  proof -
    obtain c ev where e: "extractContentFromHtml P html = (c, ev)" by fastforce
    then have c: "c = lit ''<error>Failed to extract content from HTML</error>''"
      using m by simp
    have "fetchUrl P (url args) DEFAULT_USER_AGENT_AUTONOMOUS (raw args)
            = (Inr (c, []), Fetch_call (url args) DEFAULT_USER_AGENT_AUTONOMOUS # ev)"
      using f o t h r e by (simp add: fetchUrl_def)
    then show ?thesis
      using handler_paginates [OF u p] c by simp
  qed
  then show ?thesis using m d by blast
qed

theorem thrown_extraction_is_content_witness:
  "fst (fetch_tool
     (example_platform (Some (lit ''text/html'')) (lit ''<html><body>hello</body></html>'')
        (Inl (Error_instance (lit ''parse error''))) (lit ''hello''))
     \<lparr>url = lit ''http://example.com/'', max_length = 5000, start_index = 0, raw = False\<rparr>)
   = \<lparr>text_item = lit ''Contents of http://example.com/:'' @ newline
                    @ lit ''<error>Failed to extract content from HTML</error>'',
       isError = None\<rparr>"
proof -
  let ?body = "lit ''<html><body>hello</body></html>''"
  let ?P = "example_platform (Some (lit ''text/html'')) ?body
              (Inl (Error_instance (lit ''parse error''))) (lit ''hello'')"
  let ?args = "\<lparr>url = lit ''http://example.com/'', max_length = 5000, start_index = 0, raw = False\<rparr>"
  let ?r = "\<lparr>ok = True, status = 200, content_type_header = Some (lit ''text/html''),
             text_body = Inr ?body\<rparr>"
  have e: "extraction_throws ?P ?body"
    by (simp add: extraction_throws_def example_platform_def)
  have u: "URL_protocol ?P (url ?args) = Inr (lit ''http:'')"
    by (simp add: example_protocol_http)
  have f: "fetch ?P (url ?args) DEFAULT_USER_AGENT_AUTONOMOUS = Inr ?r"
    by (simp add: example_platform_def)
  have h: "isPageHtml ?body (lit ''text/html'')"
    by (simp add: isPageHtml_def substring_def lit_def)
  have p: "paginate (lit ''<error>Failed to extract content from HTML</error>'') 0 5000
             = Slice (lit ''<error>Failed to extract content from HTML</error>'') None"
    by (simp add: paginate_def slice_str_def relative_index_def lit_def)
  have "URL_protocol ?P (url ?args) = Inr (lit ''http:'')
        \<and> (lit ''http:'' = lit ''http:'' \<or> lit ''http:'' = lit ''https:'')
        \<and> fetch ?P (url ?args) DEFAULT_USER_AGENT_AUTONOMOUS = Inr ?r
        \<and> ok ?r \<and> text_body ?r = Inr ?body
        \<and> lit ''text/html'' = (case content_type_header ?r of None \<Rightarrow> [] | Some h \<Rightarrow> h)
        \<and> isPageHtml ?body (lit ''text/html'') \<and> \<not> raw ?args"
    using u f h by simp
  then have "fst (fetch_tool ?P ?args) =
               \<lparr>text_item = lit ''Contents of '' @ url ?args @ lit '':'' @ newline
                  @ render (paginate (lit ''<error>Failed to extract content from HTML</error>'')
                              (start_index ?args) (max_length ?args)),
                isError = None\<rparr>"
    using thrown_extraction_is_content [OF e] by blast
  then show ?thesis using p by (simp add: lit_def)
qed

end
